theory Spec2Isabelle
  imports Main "HOL-Library.Multiset"
begin

section \<open>Contact Center Insights: transcript fusion and schema validation\<close>

text \<open>
  A shallow embedding of the notebook \<^verbatim>\<open>contact_center_insights_for_nvidia.ipynb\<close>:
  the function \<^verbatim>\<open>combine_and_format_results\<close> with its nested
  \<^verbatim>\<open>extract_transcript\<close>, the construction of the \<^verbatim>\<open>Transcript\<close>, and the
  pydantic models \<^verbatim>\<open>Utterance\<close>, \<^verbatim>\<open>Transcript\<close>, \<^verbatim>\<open>Entities\<close>,
  \<^verbatim>\<open>ScoreMetric\<close>, \<^verbatim>\<open>BoolMetric\<close>, \<^verbatim>\<open>StringMetric\<close>, \<^verbatim>\<open>Evaluation\<close>
  and \<^verbatim>\<open>Result\<close>.

  Python integers are \<open>int\<close>, Python strings are \<open>string\<close>, a raised exception is the
  left summand of \<open>error + 'a\<close>.
\<close>

subsection \<open>Errors\<close>

text \<open>
  The notebook defines no exception class of its own. Two exceptions of Python and
  pydantic can leave the modelled code: \<^verbatim>\<open>IndexError\<close> from \<^verbatim>\<open>alternative.words[0]\<close>
  on an empty sequence, and pydantic's \<^verbatim>\<open>ValidationError\<close> when a payload does not fit
  a model class.
\<close>

datatype error = IndexError | ValidationError

subsection \<open>Recognition results\<close>

text \<open>
  What \<^verbatim>\<open>transcribe_with_riva\<close> returns (\<^verbatim>\<open>response.results\<close>): a sequence of results,
  each with a sequence of alternatives, each with its transcript and its timed words.
  The word offsets of the recognition service are integers (milliseconds).
\<close>

record WordInfo =
  word_start_time :: int
  word_end_time :: int
  word_text :: string

record Alternative =
  alt_transcript :: string
  words :: "WordInfo list"

record RecognitionResult =
  alternatives :: "Alternative list"

text \<open>
  The dictionary that \<^verbatim>\<open>extract_transcript\<close> appends for an alternative, with the keys
  \<^verbatim>\<open>'transcript'\<close>, \<^verbatim>\<open>'start_time'\<close> and \<^verbatim>\<open>'speaker'\<close>.
\<close>

record Entry =
  entry_transcript :: string
  start_time :: int
  entry_speaker :: int

subsection \<open>The models of the transcript\<close>

record Utterance =
  time :: int
  speaker :: int
  spoken_words :: string

record Transcript =
  utterances :: "Utterance list"
  call_duration :: int

subsection \<open>\<^verbatim>\<open>str.strip()\<close>\<close>

text \<open>
  \<^verbatim>\<open>str.strip()\<close> without argument removes the leading and the trailing characters for
  which \<^verbatim>\<open>str.isspace\<close> holds. A \<open>char\<close> stands for a code point below 256; the
  whitespace among those are the code points 9 to 13, 28 to 32, 133 and 160.
\<close>

definition isspace :: "char \<Rightarrow> bool" where
  "isspace c = (of_char c \<in> {9, 10, 11, 12, 13, 28, 29, 30, 31, 32, 133, 160 :: nat})"

definition strip :: "string \<Rightarrow> string" where
  "strip s = rev (dropWhile isspace (rev (dropWhile isspace s)))"

subsection \<open>\<^verbatim>\<open>extract_transcript\<close>\<close>

text \<open>
  The body of the inner loop: the dictionary appended for one alternative.
  \<^verbatim>\<open>alternative.words[0]\<close> raises \<^verbatim>\<open>IndexError\<close> when the alternative has no word.
\<close>

definition alternative_entry :: "int \<Rightarrow> Alternative \<Rightarrow> error + Entry" where
  "alternative_entry speaker_label alternative =
     (case words alternative of
        [] \<Rightarrow> Inl IndexError
      | w # _ \<Rightarrow>
          Inr \<lparr>entry_transcript = alt_transcript alternative,
               start_time = word_start_time w,
               entry_speaker = speaker_label\<rparr>)"

text \<open>
  The inner loop \<^verbatim>\<open>for alternative in result.alternatives\<close>, with the list
  \<^verbatim>\<open>transcript_results\<close> built so far as accumulator.
\<close>

fun extract_alternatives :: "Alternative list \<Rightarrow> int \<Rightarrow> Entry list \<Rightarrow> error + Entry list" where
  "extract_alternatives [] speaker_label transcript_results = Inr transcript_results"
| "extract_alternatives (alternative # rest) speaker_label transcript_results =
     (case alternative_entry speaker_label alternative of
        Inl e \<Rightarrow> Inl e
      | Inr entry \<Rightarrow>
          extract_alternatives rest speaker_label (transcript_results @ [entry]))"

text \<open>The outer loop \<^verbatim>\<open>for result in results\<close>.\<close>

fun extract_results :: "RecognitionResult list \<Rightarrow> int \<Rightarrow> Entry list \<Rightarrow> error + Entry list" where
  "extract_results [] speaker_label transcript_results = Inr transcript_results"
| "extract_results (result # rest) speaker_label transcript_results =
     (case extract_alternatives (alternatives result) speaker_label transcript_results of
        Inl e \<Rightarrow> Inl e
      | Inr transcript_results' \<Rightarrow> extract_results rest speaker_label transcript_results')"

definition extract_transcript :: "RecognitionResult list \<Rightarrow> int \<Rightarrow> error + Entry list" where
  "extract_transcript results speaker_label = extract_results results speaker_label []"

subsection \<open>\<^verbatim>\<open>combine_and_format_results\<close>\<close>

text \<open>
  \<^verbatim>\<open>Utterance(time=float(result['start_time']), speaker=result['speaker'],
  spoken_words=result['transcript'].strip())\<close>. The start time is an integer; \<^verbatim>\<open>float\<close>
  of it has no fractional part, and the \<^verbatim>\<open>int\<close> field \<^verbatim>\<open>time\<close> takes such a float as
  the integer it equals.
\<close>

definition format_result :: "Entry \<Rightarrow> Utterance" where
  "format_result result =
     \<lparr>time = start_time result,
      speaker = entry_speaker result,
      spoken_words = strip (entry_transcript result)\<rparr>"

text \<open>The loop \<^verbatim>\<open>for result in combined_results\<close>, appending to \<^verbatim>\<open>utterances\<close>
  (here \<open>utts\<close>).\<close>

fun format_results :: "Entry list \<Rightarrow> Utterance list \<Rightarrow> Utterance list" where
  "format_results [] utts = utts"
| "format_results (result # rest) utts =
     format_results rest (utts @ [format_result result])"

text \<open>
  The second half of \<^verbatim>\<open>combine_and_format_results\<close>, from the two extracted sequences
  on: concatenation, \<^verbatim>\<open>combined_results.sort(key=lambda x: x['start_time'])\<close> and the
  formatting loop. Python's \<^verbatim>\<open>list.sort\<close> is stable, as \<^const>\<open>sort_key\<close> is.
\<close>

definition combine_and_format :: "Entry list \<Rightarrow> Entry list \<Rightarrow> Utterance list" where
  "combine_and_format left_entries right_entries =
     format_results (sort_key start_time (left_entries @ right_entries)) []"

definition combine_and_format_results ::
    "RecognitionResult list \<Rightarrow> RecognitionResult list \<Rightarrow> error + Utterance list" where
  "combine_and_format_results left_results right_results =
     (case extract_transcript left_results 0 of
        Inl e \<Rightarrow> Inl e
      | Inr left_entries \<Rightarrow>
          (case extract_transcript right_results 1 of
             Inl e \<Rightarrow> Inl e
           | Inr right_entries \<Rightarrow> Inr (combine_and_format left_entries right_entries)))"

text \<open>
  The two statements that build the transcript of a run:
  \<^verbatim>\<open>utterances = combine_and_format_results(left_results, right_results)\<close> and
  \<^verbatim>\<open>transcript = Transcript(utterances=utterances, call_duration=duration)\<close>. The
  duration is the length of the audio, computed apart from the recognition results.
\<close>

definition build_transcript ::
    "RecognitionResult list \<Rightarrow> RecognitionResult list \<Rightarrow> int \<Rightarrow> error + Transcript" where
  "build_transcript left_results right_results duration =
     (case combine_and_format_results left_results right_results of
        Inl e \<Rightarrow> Inl e
      | Inr us \<Rightarrow> Inr \<lparr>utterances = us, call_duration = duration\<rparr>)"

text \<open>
  The invariant the data model states for a transcript: no utterance starts after the
  end of the call.
\<close>

definition times_within_duration :: "Transcript \<Rightarrow> bool" where
  "times_within_duration t = list_all (\<lambda>u. time u \<le> call_duration t) (utterances t)"

subsection \<open>JSON payloads\<close>

text \<open>
  The value that a structured completion hands to a model class, and the value that
  \<^verbatim>\<open>model_dump_json\<close> writes: null, an integer, a string, an array or an object. An
  object keeps its members in order; of two members with one key the later one counts,
  as in the dictionary read from JSON text. The text layer (printing and lexing JSON) is
  pydantic's, and is represented by this tree. Pydantic's conversions between scalar
  kinds (a numeric string or a float without fraction given for an \<^verbatim>\<open>int\<close> field) are
  outside the model: where a class says \<^verbatim>\<open>int\<close>, the model takes a JSON integer and
  nothing else. The theorems below are about integers given as JSON integers, about
  missing members and about what \<^verbatim>\<open>model_dump_json\<close> writes, and rest on no rejection
  of another scalar kind.
\<close>

datatype json =
    JNull
  | JInt int
  | JString string
  | JArray "json list"
  | JObject "(string \<times> json) list"

definition get_key :: "(string \<times> json) list \<Rightarrow> string \<Rightarrow> json option" where
  "get_key members k = map_of (rev members) k"

text \<open>Sequencing of steps that may raise.\<close>

fun and_then :: "error + 'a \<Rightarrow> ('a \<Rightarrow> error + 'b) \<Rightarrow> error + 'b" where
  "and_then (Inl e) f = Inl e"
| "and_then (Inr x) f = f x"

text \<open>An outcome of validation: a value, or pydantic's \<^verbatim>\<open>ValidationError\<close>.\<close>

fun validation_outcome :: "error + 'a \<Rightarrow> bool" where
  "validation_outcome (Inl e) = (e = ValidationError)"
| "validation_outcome (Inr x) = True"

text \<open>
  A field declared without default is required: validation fails when the key is
  missing, and otherwise validates the member against the field's type.
\<close>

definition required ::
    "(string \<times> json) list \<Rightarrow> string \<Rightarrow> (json \<Rightarrow> error + 'a) \<Rightarrow> error + 'a" where
  "required members k validate =
     (case get_key members k of
        None \<Rightarrow> Inl ValidationError
      | Some v \<Rightarrow> validate v)"

text \<open>The field types \<^verbatim>\<open>int\<close>, \<^verbatim>\<open>str\<close>, \<^verbatim>\<open>Optional[str]\<close> and \<^verbatim>\<open>List[...]\<close>.\<close>

fun validate_int :: "json \<Rightarrow> error + int" where
  "validate_int (JInt i) = Inr i"
| "validate_int _ = Inl ValidationError"

fun validate_str :: "json \<Rightarrow> error + string" where
  "validate_str (JString s) = Inr s"
| "validate_str _ = Inl ValidationError"

fun validate_optional_str :: "json \<Rightarrow> error + string option" where
  "validate_optional_str JNull = Inr None"
| "validate_optional_str (JString s) = Inr (Some s)"
| "validate_optional_str _ = Inl ValidationError"

fun validate_items :: "(json \<Rightarrow> error + 'a) \<Rightarrow> json list \<Rightarrow> error + 'a list" where
  "validate_items validate [] = Inr []"
| "validate_items validate (j # js) =
     and_then (validate j) (\<lambda>x.
     and_then (validate_items validate js) (\<lambda>xs. Inr (x # xs)))"

fun validate_list :: "(json \<Rightarrow> error + 'a) \<Rightarrow> json \<Rightarrow> error + 'a list" where
  "validate_list validate (JArray js) = validate_items validate js"
| "validate_list validate _ = Inl ValidationError"

fun dump_optional_str :: "string option \<Rightarrow> json" where
  "dump_optional_str None = JNull"
| "dump_optional_str (Some s) = JString s"

subsection \<open>\<^verbatim>\<open>Utterance\<close> and \<^verbatim>\<open>Transcript\<close> as schemas\<close>

fun validate_Utterance :: "json \<Rightarrow> error + Utterance" where
  "validate_Utterance (JObject ms) =
     and_then (required ms ''time'' validate_int) (\<lambda>v_time.
     and_then (required ms ''speaker'' validate_int) (\<lambda>v_speaker.
     and_then (required ms ''spoken_words'' validate_str) (\<lambda>v_spoken_words.
     Inr \<lparr>time = v_time, speaker = v_speaker, spoken_words = v_spoken_words\<rparr>)))"
| "validate_Utterance _ = Inl ValidationError"

definition dump_Utterance :: "Utterance \<Rightarrow> json" where
  "dump_Utterance u =
     JObject [(''time'', JInt (time u)), (''speaker'', JInt (speaker u)),
              (''spoken_words'', JString (spoken_words u))]"

fun validate_Transcript :: "json \<Rightarrow> error + Transcript" where
  "validate_Transcript (JObject ms) =
     and_then (required ms ''utterances'' (validate_list validate_Utterance)) (\<lambda>v_utterances.
     and_then (required ms ''call_duration'' validate_int) (\<lambda>v_call_duration.
     Inr \<lparr>utterances = v_utterances, call_duration = v_call_duration\<rparr>))"
| "validate_Transcript _ = Inl ValidationError"

definition dump_Transcript :: "Transcript \<Rightarrow> json" where
  "dump_Transcript t =
     JObject [(''utterances'', JArray (map dump_Utterance (utterances t))),
              (''call_duration'', JInt (call_duration t))]"

subsection \<open>\<^verbatim>\<open>Entities\<close>\<close>

text \<open>
  No field of \<^verbatim>\<open>Entities\<close> has a default. The notebook writes the result with
  \<^verbatim>\<open>model_dump_json\<close>, the interface of pydantic 2, under which an \<^verbatim>\<open>Optional[str]\<close>
  field without default is required and may be null.
\<close>

record Entities =
  agent_name :: "string option"
  customer_name :: "string option"
  agent_speaker :: int
  customer_speaker :: int
  reason :: "string option"
  topic :: string
  subtopic :: string

fun validate_Entities :: "json \<Rightarrow> error + Entities" where
  "validate_Entities (JObject ms) =
     and_then (required ms ''agent_name'' validate_optional_str) (\<lambda>v_agent_name.
     and_then (required ms ''customer_name'' validate_optional_str) (\<lambda>v_customer_name.
     and_then (required ms ''agent_speaker'' validate_int) (\<lambda>v_agent_speaker.
     and_then (required ms ''customer_speaker'' validate_int) (\<lambda>v_customer_speaker.
     and_then (required ms ''reason'' validate_optional_str) (\<lambda>v_reason.
     and_then (required ms ''topic'' validate_str) (\<lambda>v_topic.
     and_then (required ms ''subtopic'' validate_str) (\<lambda>v_subtopic.
     Inr \<lparr>agent_name = v_agent_name, customer_name = v_customer_name,
          agent_speaker = v_agent_speaker, customer_speaker = v_customer_speaker, reason = v_reason, topic = v_topic, subtopic = v_subtopic\<rparr>)))))))"
| "validate_Entities _ = Inl ValidationError"

definition dump_Entities :: "Entities \<Rightarrow> json" where
  "dump_Entities e =
     JObject [(''agent_name'', dump_optional_str (agent_name e)),
              (''customer_name'', dump_optional_str (customer_name e)),
              (''agent_speaker'', JInt (agent_speaker e)),
              (''customer_speaker'', JInt (customer_speaker e)),
              (''reason'', dump_optional_str (reason e)),
              (''topic'', JString (topic e)),
              (''subtopic'', JString (subtopic e))]"

subsection \<open>The metrics and \<^verbatim>\<open>Evaluation\<close>\<close>

text \<open>
  \<^verbatim>\<open>ScoreMetric\<close> and \<^verbatim>\<open>BoolMetric\<close> declare \<^verbatim>\<open>value: int\<close> with a description
  (``from 1 to 10'', ``0 for false, 1 for true'') and no constraint; \<^verbatim>\<open>StringMetric\<close>
  declares \<^verbatim>\<open>value: str\<close>. The fields \<^verbatim>\<open>value\<close> and \<^verbatim>\<open>justification\<close> of the three
  classes carry the class as prefix here.
\<close>

record ScoreMetric =
  score_value :: int
  score_justification :: string

record BoolMetric =
  bool_value :: int
  bool_justification :: string

record StringMetric =
  string_value :: string
  string_justification :: string

fun validate_ScoreMetric :: "json \<Rightarrow> error + ScoreMetric" where
  "validate_ScoreMetric (JObject ms) =
     and_then (required ms ''value'' validate_int) (\<lambda>v_value.
     and_then (required ms ''justification'' validate_str) (\<lambda>v_justification.
     Inr \<lparr>score_value = v_value, score_justification = v_justification\<rparr>))"
| "validate_ScoreMetric _ = Inl ValidationError"

definition dump_ScoreMetric :: "ScoreMetric \<Rightarrow> json" where
  "dump_ScoreMetric m =
     JObject [(''value'', JInt (score_value m)),
              (''justification'', JString (score_justification m))]"

fun validate_BoolMetric :: "json \<Rightarrow> error + BoolMetric" where
  "validate_BoolMetric (JObject ms) =
     and_then (required ms ''value'' validate_int) (\<lambda>v_value.
     and_then (required ms ''justification'' validate_str) (\<lambda>v_justification.
     Inr \<lparr>bool_value = v_value, bool_justification = v_justification\<rparr>))"
| "validate_BoolMetric _ = Inl ValidationError"

definition dump_BoolMetric :: "BoolMetric \<Rightarrow> json" where
  "dump_BoolMetric m =
     JObject [(''value'', JInt (bool_value m)),
              (''justification'', JString (bool_justification m))]"

fun validate_StringMetric :: "json \<Rightarrow> error + StringMetric" where
  "validate_StringMetric (JObject ms) =
     and_then (required ms ''value'' validate_str) (\<lambda>v_value.
     and_then (required ms ''justification'' validate_str) (\<lambda>v_justification.
     Inr \<lparr>string_value = v_value, string_justification = v_justification\<rparr>))"
| "validate_StringMetric _ = Inl ValidationError"

definition dump_StringMetric :: "StringMetric \<Rightarrow> json" where
  "dump_StringMetric m =
     JObject [(''value'', JString (string_value m)),
              (''justification'', JString (string_justification m))]"

record Evaluation =
  greeting :: BoolMetric
  hold :: BoolMetric
  ticket :: BoolMetric
  listening :: BoolMetric
  understanding :: BoolMetric
  tone :: BoolMetric
  proactivity :: BoolMetric
  clarity :: BoolMetric
  resolved :: BoolMetric
  customer_sentiment :: ScoreMetric
  escalation :: BoolMetric
  agent_feedback :: StringMetric
  escalation_reason :: StringMetric

text \<open>The names of the fields of \<^verbatim>\<open>Evaluation\<close>, in the order of the class.\<close>

definition Evaluation_fields :: "string list" where
  "Evaluation_fields =
     [''greeting'', ''hold'', ''ticket'', ''listening'', ''understanding'', ''tone'',
      ''proactivity'', ''clarity'', ''resolved'', ''customer_sentiment'', ''escalation'',
      ''agent_feedback'', ''escalation_reason'']"

fun validate_Evaluation :: "json \<Rightarrow> error + Evaluation" where
  "validate_Evaluation (JObject ms) =
     and_then (required ms ''greeting'' validate_BoolMetric) (\<lambda>v_greeting.
     and_then (required ms ''hold'' validate_BoolMetric) (\<lambda>v_hold.
     and_then (required ms ''ticket'' validate_BoolMetric) (\<lambda>v_ticket.
     and_then (required ms ''listening'' validate_BoolMetric) (\<lambda>v_listening.
     and_then (required ms ''understanding'' validate_BoolMetric) (\<lambda>v_understanding.
     and_then (required ms ''tone'' validate_BoolMetric) (\<lambda>v_tone.
     and_then (required ms ''proactivity'' validate_BoolMetric) (\<lambda>v_proactivity.
     and_then (required ms ''clarity'' validate_BoolMetric) (\<lambda>v_clarity.
     and_then (required ms ''resolved'' validate_BoolMetric) (\<lambda>v_resolved.
     and_then (required ms ''customer_sentiment'' validate_ScoreMetric) (\<lambda>v_customer_sentiment.
     and_then (required ms ''escalation'' validate_BoolMetric) (\<lambda>v_escalation.
     and_then (required ms ''agent_feedback'' validate_StringMetric) (\<lambda>v_agent_feedback.
     and_then (required ms ''escalation_reason'' validate_StringMetric) (\<lambda>v_escalation_reason.
     Inr \<lparr>greeting = v_greeting, hold = v_hold, ticket = v_ticket,
          listening = v_listening, understanding = v_understanding, tone = v_tone,
          proactivity = v_proactivity, clarity = v_clarity, resolved = v_resolved,
          customer_sentiment = v_customer_sentiment, escalation = v_escalation, agent_feedback = v_agent_feedback,
          escalation_reason = v_escalation_reason\<rparr>)))))))))))))"
| "validate_Evaluation _ = Inl ValidationError"

definition dump_Evaluation :: "Evaluation \<Rightarrow> json" where
  "dump_Evaluation e =
     JObject [(''greeting'', dump_BoolMetric (greeting e)),
              (''hold'', dump_BoolMetric (hold e)),
              (''ticket'', dump_BoolMetric (ticket e)),
              (''listening'', dump_BoolMetric (listening e)),
              (''understanding'', dump_BoolMetric (understanding e)),
              (''tone'', dump_BoolMetric (tone e)),
              (''proactivity'', dump_BoolMetric (proactivity e)),
              (''clarity'', dump_BoolMetric (clarity e)),
              (''resolved'', dump_BoolMetric (resolved e)),
              (''customer_sentiment'', dump_ScoreMetric (customer_sentiment e)),
              (''escalation'', dump_BoolMetric (escalation e)),
              (''agent_feedback'', dump_StringMetric (agent_feedback e)),
              (''escalation_reason'', dump_StringMetric (escalation_reason e))]"

subsection \<open>\<^verbatim>\<open>Result\<close>\<close>

record Result =
  transcript :: Transcript
  entities :: Entities
  evaluation :: Evaluation

fun validate_Result :: "json \<Rightarrow> error + Result" where
  "validate_Result (JObject ms) =
     and_then (required ms ''transcript'' validate_Transcript) (\<lambda>v_transcript.
     and_then (required ms ''entities'' validate_Entities) (\<lambda>v_entities.
     and_then (required ms ''evaluation'' validate_Evaluation) (\<lambda>v_evaluation.
     Inr \<lparr>transcript = v_transcript, entities = v_entities, evaluation = v_evaluation\<rparr>)))"
| "validate_Result _ = Inl ValidationError"

definition dump_Result :: "Result \<Rightarrow> json" where
  "dump_Result r =
     JObject [(''transcript'', dump_Transcript (transcript r)),
              (''entities'', dump_Entities (entities r)),
              (''evaluation'', dump_Evaluation (evaluation r))]"

section \<open>Properties of the transcript fusion\<close>

subsection \<open>The loops as list functions\<close>

lemma format_results_acc: "format_results rs utts = utts @ map format_result rs"
  by (induction rs arbitrary: utts) simp_all

lemma combine_and_format_map:
  "combine_and_format l r = map format_result (sort_key start_time (l @ r))"
  by (simp add: combine_and_format_def format_results_acc)

lemma time_format_result: "time \<circ> format_result = start_time"
  by (rule ext) (simp add: format_result_def)

lemma extract_alternatives_acc:
  "extract_alternatives as label acc = Inr es \<longleftrightarrow>
     (\<exists>new. es = acc @ new \<and> map Inr new = map (alternative_entry label) as)"
proof (induction as arbitrary: acc)
  case Nil
  then show ?case by auto
next
  case (Cons a as)
  show ?case
  proof (cases "alternative_entry label a")
    case (Inl e)
    then show ?thesis by auto
  next
    case (Inr entry)
    show ?thesis
    proof
      assume "extract_alternatives (a # as) label acc = Inr es"
      with Inr Cons.IH [of "acc @ [entry]"]
      obtain new where "es = (acc @ [entry]) @ new" "map Inr new = map (alternative_entry label) as"
        by auto
      with Inr have "es = acc @ (entry # new) \<and>
          map Inr (entry # new) = map (alternative_entry label) (a # as)"
        by simp
      then show "\<exists>new. es = acc @ new \<and> map Inr new = map (alternative_entry label) (a # as)"
        by blast
    next
      assume "\<exists>new. es = acc @ new \<and> map Inr new = map (alternative_entry label) (a # as)"
      then obtain new where new: "es = acc @ new"
          "map Inr new = map (alternative_entry label) (a # as)"
        by blast
      with Inr obtain new' where "new = entry # new'"
          "map Inr new' = map (alternative_entry label) as"
        by (cases new) auto
      with new Cons.IH [of "acc @ [entry]"] Inr
      show "extract_alternatives (a # as) label acc = Inr es"
        by auto
    qed
  qed
qed

lemma extract_results_acc:
  "extract_results rs label acc = Inr es \<longleftrightarrow>
     (\<exists>new. es = acc @ new \<and>
        map Inr new = concat (map (\<lambda>r. map (alternative_entry label) (alternatives r)) rs))"
proof (induction rs arbitrary: acc)
  case Nil
  then show ?case by auto
next
  case (Cons r rs)
  let ?row = "map (alternative_entry label) (alternatives r)"
  let ?rows = "concat (map (\<lambda>r. map (alternative_entry label) (alternatives r)) rs)"
  show ?case
  proof
    assume run: "extract_results (r # rs) label acc = Inr es"
    then obtain mid where mid: "extract_alternatives (alternatives r) label acc = Inr mid"
        and rest: "extract_results rs label mid = Inr es"
      by (auto split: sum.splits)
    from mid obtain n1 where n1: "mid = acc @ n1" "map Inr n1 = ?row"
      by (auto simp: extract_alternatives_acc)
    from rest Cons.IH [of mid] obtain n2 where n2: "es = mid @ n2" "map Inr n2 = ?rows"
      by auto
    from n1 n2 have "es = acc @ (n1 @ n2) \<and> map Inr (n1 @ n2) = ?row @ ?rows"
      by simp
    then show "\<exists>new. es = acc @ new \<and>
        map Inr new = concat (map (\<lambda>r. map (alternative_entry label) (alternatives r)) (r # rs))"
      by (metis concat.simps(2) list.simps(9))
  next
    assume "\<exists>new. es = acc @ new \<and>
        map Inr new = concat (map (\<lambda>r. map (alternative_entry label) (alternatives r)) (r # rs))"
    then obtain new where new: "es = acc @ new" "map Inr new = ?row @ ?rows"
      by auto
    define n1 where "n1 = take (length ?row) new"
    define n2 where "n2 = drop (length ?row) new"
    have split: "new = n1 @ n2" by (simp add: n1_def n2_def)
    have "map Inr n1 = take (length ?row) (?row @ ?rows)"
      unfolding n1_def take_map new(2) [symmetric] by (rule refl)
    then have n1: "map Inr n1 = ?row" by simp
    have "map Inr n2 = drop (length ?row) (?row @ ?rows)"
      unfolding n2_def drop_map new(2) [symmetric] by (rule refl)
    then have n2: "map Inr n2 = ?rows" by simp
    from n1 have "extract_alternatives (alternatives r) label acc = Inr (acc @ n1)"
      by (auto simp: extract_alternatives_acc)
    moreover from n2 Cons.IH [of "acc @ n1"] new split
    have "extract_results rs label (acc @ n1) = Inr es" by auto
    ultimately show "extract_results (r # rs) label acc = Inr es" by simp
  qed
qed

lemma extract_transcript_iff:
  "extract_transcript results label = Inr es \<longleftrightarrow>
     map Inr es = concat (map (\<lambda>r. map (alternative_entry label) (alternatives r)) results)"
  by (simp add: extract_transcript_def extract_results_acc)

subsection \<open>When \<^verbatim>\<open>extract_transcript\<close> raises\<close>

lemma alternative_entry_Inl:
  "alternative_entry label a = Inl e \<longleftrightarrow> e = IndexError \<and> words a = []"
  by (auto simp: alternative_entry_def split: list.splits)

lemma alternative_entry_Inr:
  "alternative_entry label a = Inr entry \<longleftrightarrow>
     words a \<noteq> [] \<and>
     entry = \<lparr>entry_transcript = alt_transcript a,
              start_time = word_start_time (hd (words a)),
              entry_speaker = label\<rparr>"
  by (auto simp: alternative_entry_def split: list.splits)

lemma extract_alternatives_Inl:
  "extract_alternatives as label acc = Inl e \<longleftrightarrow>
     e = IndexError \<and> (\<exists>a \<in> set as. words a = [])"
proof (induction as arbitrary: acc)
  case Nil
  then show ?case by simp
next
  case (Cons a as)
  show ?case
  proof (cases "alternative_entry label a")
    case (Inl e')
    then have "e' = IndexError" "words a = []"
      by (simp_all add: alternative_entry_Inl)
    with Inl show ?thesis by auto
  next
    case (Inr entry)
    then have "words a \<noteq> []"
      by (simp add: alternative_entry_Inr)
    with Inr Cons.IH [of "acc @ [entry]"] show ?thesis by simp
  qed
qed

lemma extract_results_Inl:
  "extract_results rs label acc = Inl e \<longleftrightarrow>
     e = IndexError \<and> (\<exists>r \<in> set rs. \<exists>a \<in> set (alternatives r). words a = [])"
proof (induction rs arbitrary: acc)
  case Nil
  then show ?case by simp
next
  case (Cons r rs)
  show ?case
  proof (cases "extract_alternatives (alternatives r) label acc")
    case (Inl e')
    then have "e' = IndexError" "\<exists>a \<in> set (alternatives r). words a = []"
      by (simp_all add: extract_alternatives_Inl)
    with Inl show ?thesis by auto
  next
    case (Inr mid)
    have "\<not> (\<exists>a \<in> set (alternatives r). words a = [])"
      using Inr extract_alternatives_Inl [of "alternatives r" label acc IndexError] by simp
    with Inr Cons.IH [of mid] show ?thesis
      by simp
  qed
qed

lemma extract_transcript_Inl:
  "extract_transcript results label = Inl e \<longleftrightarrow>
     e = IndexError \<and> (\<exists>r \<in> set results. \<exists>a \<in> set (alternatives r). words a = [])"
  by (simp add: extract_transcript_def extract_results_Inl)

lemma concat_rows_filter:
  "concat (map f (filter (\<lambda>r. alternatives r \<noteq> []) rs)) = concat (map f rs)"
  if "\<And>r. alternatives r = [] \<Longrightarrow> f r = []"
  using that by (induction rs) auto

lemma extract_transcript_drop_empty:
  "extract_transcript (filter (\<lambda>r. alternatives r \<noteq> []) results) label =
   extract_transcript results label"
proof (cases "extract_transcript results label")
  case (Inl e)
  then have "extract_transcript (filter (\<lambda>r. alternatives r \<noteq> []) results) label = Inl e"
    unfolding extract_transcript_Inl by auto
  with Inl show ?thesis by simp
next
  case (Inr es)
  then have "extract_transcript (filter (\<lambda>r. alternatives r \<noteq> []) results) label = Inr es"
    unfolding extract_transcript_iff by (simp add: concat_rows_filter)
  with Inr show ?thesis by simp
qed

lemma single_alternative_rows:
  assumes "\<forall>r \<in> set results. length (alternatives r) = 1"
  shows "concat (map (\<lambda>r. map f (alternatives r)) results) =
         map (\<lambda>r. f (hd (alternatives r))) results"
  using assms
proof (induction results)
  case Nil
  then show ?case by simp
next
  case (Cons r rs)
  then obtain a where "alternatives r = [a]"
    by (cases "alternatives r") auto
  with Cons show ?case by simp
qed

subsection \<open>What \<^verbatim>\<open>extract_transcript\<close> returns\<close>

lemma rows_all_Inr:
  assumes "\<forall>r \<in> set results. \<forall>a \<in> set (alternatives r). words a \<noteq> []"
  shows "concat (map (\<lambda>r. map (alternative_entry label) (alternatives r)) results) =
         map Inr (concat (map (\<lambda>r. map (\<lambda>a.
           \<lparr>entry_transcript = alt_transcript a,
            start_time = word_start_time (hd (words a)),
            entry_speaker = label\<rparr>) (alternatives r)) results))"
  using assms
proof (induction results)
  case Nil
  then show ?case by simp
next
  case (Cons r rs)
  have "map (alternative_entry label) (alternatives r) =
      map (\<lambda>a. Inr \<lparr>entry_transcript = alt_transcript a,
            start_time = word_start_time (hd (words a)),
            entry_speaker = label\<rparr>) (alternatives r)"
    using Cons.prems by (intro map_cong refl) (simp add: alternative_entry_Inr)
  with Cons show ?case by simp
qed

lemma extract_transcript_Inr:
  "extract_transcript results label = Inr es \<longleftrightarrow>
     (\<forall>r \<in> set results. \<forall>a \<in> set (alternatives r). words a \<noteq> []) \<and>
     es = concat (map (\<lambda>r. map (\<lambda>a.
           \<lparr>entry_transcript = alt_transcript a,
            start_time = word_start_time (hd (words a)),
            entry_speaker = label\<rparr>) (alternatives r)) results)"
proof (cases "\<forall>r \<in> set results. \<forall>a \<in> set (alternatives r). words a \<noteq> []")
  case True
  then show ?thesis
    by (simp add: extract_transcript_iff rows_all_Inr)
next
  case False
  then have "extract_transcript results label = Inl IndexError"
    by (simp add: extract_transcript_Inl)
  with False show ?thesis by simp
qed

lemma combine_and_format_results_Inr:
  "combine_and_format_results left right = Inr us \<longleftrightarrow>
     (\<exists>l r. extract_transcript left 0 = Inr l \<and> extract_transcript right 1 = Inr r \<and>
            us = combine_and_format l r)"
  by (auto simp: combine_and_format_results_def split: sum.splits)

lemma build_transcript_Inr:
  "build_transcript left right d = Inr t \<longleftrightarrow>
     (\<exists>l r. extract_transcript left 0 = Inr l \<and> extract_transcript right 1 = Inr r \<and>
            t = \<lparr>utterances = combine_and_format l r, call_duration = d\<rparr>)"
proof (cases "combine_and_format_results left right")
  case (Inl e)
  then show ?thesis
    using combine_and_format_results_Inr [of left right] by (auto simp: build_transcript_def)
next
  case (Inr us)
  then show ?thesis
    using combine_and_format_results_Inr [of left right us]
    by (auto simp: build_transcript_def)
qed

lemma extract_transcript_start_times:
  assumes "extract_transcript results label = Inr es"
  shows "(\<forall>e \<in> set es. start_time e \<le> d) \<longleftrightarrow>
         (\<forall>r \<in> set results. \<forall>a \<in> set (alternatives r). word_start_time (hd (words a)) \<le> d)"
  using assms unfolding extract_transcript_Inr by auto

section \<open>The claims about the normalizer\<close>

text \<open>
  Claim C2, as the specification states it: the normalizer produces exactly one entry for
  each recognized segment, from the top-ranked alternative alone, and an alternative
  beyond the first never contributes an entry. The loop runs over every alternative of a
  segment, so a segment with two alternatives gives two entries.
\<close>

theorem extract_transcript_second_alternative_counterexample:
  "extract_transcript
     [\<lparr>alternatives =
         [\<lparr>alt_transcript = ''Hello there'',
           words = [\<lparr>word_start_time = 1000, word_end_time = 1400, word_text = ''Hello''\<rparr>,
                    \<lparr>word_start_time = 1500, word_end_time = 1900, word_text = ''there''\<rparr>]\<rparr>,
          \<lparr>alt_transcript = ''Hollow there'',
           words = [\<lparr>word_start_time = 1010, word_end_time = 1400, word_text = ''Hollow''\<rparr>,
                    \<lparr>word_start_time = 1500, word_end_time = 1900, word_text = ''there''\<rparr>]\<rparr>]\<rparr>]
     0 =
   Inr [\<lparr>entry_transcript = ''Hello there'', start_time = 1000, entry_speaker = 0\<rparr>,
        \<lparr>entry_transcript = ''Hollow there'', start_time = 1010, entry_speaker = 0\<rparr>]"
  by (simp add: extract_transcript_def alternative_entry_def)

text \<open>
  Claim C2, amended: \<^verbatim>\<open>extract_transcript\<close> returns exactly when every alternative has
  a word, and then it returns one entry for each alternative of each segment, in the
  order of the segments and of their alternatives; the entry carries the transcript of
  its alternative, the start time of the first word of that alternative and the speaker
  label. When every segment has exactly one alternative, this is one entry for each
  segment, from its only (top-ranked) alternative.
\<close>

theorem extract_transcript_one_entry_per_alternative:
  "(extract_transcript results label = Inr es \<longleftrightarrow>
      (\<forall>r \<in> set results. \<forall>a \<in> set (alternatives r). words a \<noteq> []) \<and>
      es = concat (map (\<lambda>r. map (\<lambda>a.
               \<lparr>entry_transcript = alt_transcript a,
                 start_time = word_start_time (hd (words a)),
                 entry_speaker = label\<rparr>) (alternatives r)) results))
   \<and> ((\<forall>r \<in> set results. length (alternatives r) = 1) \<and>
        extract_transcript results label = Inr es \<longrightarrow>
        es = map (\<lambda>r.
               \<lparr>entry_transcript = alt_transcript (hd (alternatives r)),
                 start_time = word_start_time (hd (words (hd (alternatives r)))),
                 entry_speaker = label\<rparr>) results)"
proof (intro conjI impI)
  show "extract_transcript results label = Inr es \<longleftrightarrow>
      (\<forall>r \<in> set results. \<forall>a \<in> set (alternatives r). words a \<noteq> []) \<and>
      es = concat (map (\<lambda>r. map (\<lambda>a.
               \<lparr>entry_transcript = alt_transcript a,
                 start_time = word_start_time (hd (words a)),
                 entry_speaker = label\<rparr>) (alternatives r)) results)"
    by (rule extract_transcript_Inr)
next
  assume a: "(\<forall>r \<in> set results. length (alternatives r) = 1) \<and>
        extract_transcript results label = Inr es"
  then have "es = concat (map (\<lambda>r. map (\<lambda>a.
               \<lparr>entry_transcript = alt_transcript a,
                 start_time = word_start_time (hd (words a)),
                 entry_speaker = label\<rparr>) (alternatives r)) results)"
    by (simp add: extract_transcript_Inr)
  with a show "es = map (\<lambda>r.
               \<lparr>entry_transcript = alt_transcript (hd (alternatives r)),
                 start_time = word_start_time (hd (words (hd (alternatives r)))),
                 entry_speaker = label\<rparr>) results"
    by (simp add: single_alternative_rows)
qed

text \<open>Claim C2, amended: the theorem at one segment with its single alternative.\<close>

theorem extract_transcript_one_entry_per_alternative_witness:
  "length (alternatives \<lparr>alternatives = [\<lparr>alt_transcript = ''Hello '',
        words = [\<lparr>word_start_time = 1000, word_end_time = 1400, word_text = ''Hello''\<rparr>]\<rparr>]\<rparr>) = 1 \<and>
   extract_transcript [\<lparr>alternatives = [\<lparr>alt_transcript = ''Hello '',
        words = [\<lparr>word_start_time = 1000, word_end_time = 1400, word_text = ''Hello''\<rparr>]\<rparr>]\<rparr>] 0 =
     Inr [\<lparr>entry_transcript = ''Hello '', start_time = 1000, entry_speaker = 0\<rparr>] \<and>
   [\<lparr>entry_transcript = ''Hello '', start_time = 1000, entry_speaker = 0\<rparr>] =
     map (\<lambda>r. \<lparr>entry_transcript = alt_transcript (hd (alternatives r)),
                 start_time = word_start_time (hd (words (hd (alternatives r)))),
                 entry_speaker = 0\<rparr>)
       [\<lparr>alternatives = [\<lparr>alt_transcript = ''Hello '',
        words = [\<lparr>word_start_time = 1000, word_end_time = 1400, word_text = ''Hello''\<rparr>]\<rparr>]\<rparr>]"
  using extract_transcript_one_entry_per_alternative
    [of "[\<lparr>alternatives = [\<lparr>alt_transcript = ''Hello '',
        words = [\<lparr>word_start_time = 1000, word_end_time = 1400, word_text = ''Hello''\<rparr>]\<rparr>]\<rparr>]"
        0 "[\<lparr>entry_transcript = ''Hello '', start_time = 1000, entry_speaker = 0\<rparr>]"]
  by (simp add: extract_transcript_def alternative_entry_def)

text \<open>
  Claim C3, as the specification states it: a segment with zero alternatives, or an
  alternative with zero timed words, makes the normalization fail with a
  \<^verbatim>\<open>MalformedRecognitionResult\<close> error, and no malformed segment is dropped silently.
  A segment without alternatives raises nothing: the inner loop has nothing to run over,
  and the segment is absent from the merged output.
\<close>

theorem extract_transcript_empty_segment_counterexample:
  "extract_transcript [\<lparr>alternatives = []\<rparr>] 0 = Inr [] \<and>
   combine_and_format_results [\<lparr>alternatives = []\<rparr>] [] = Inr []"
  by (simp add: extract_transcript_def combine_and_format_results_def combine_and_format_def)

text \<open>
  Claim C3, amended: the normalization fails exactly when some alternative has zero
  timed words, and the failure is Python's \<^verbatim>\<open>IndexError\<close> (the code has no
  \<^verbatim>\<open>MalformedRecognitionResult\<close>); a segment with zero alternatives raises nothing and
  contributes nothing: the outcome is that of the input without such segments.
\<close>

theorem extract_transcript_fails_iff_alternative_without_words:
  "(extract_transcript results label = Inl e \<longleftrightarrow>
      e = IndexError \<and> (\<exists>r \<in> set results. \<exists>a \<in> set (alternatives r). words a = []))
   \<and> extract_transcript (filter (\<lambda>r. alternatives r \<noteq> []) results) label =
       extract_transcript results label"
  by (simp add: extract_transcript_Inl extract_transcript_drop_empty)

text \<open>Claim C3, amended: the theorem at an alternative without words.\<close>

theorem extract_transcript_fails_iff_alternative_without_words_witness:
  "(\<exists>r \<in> set [\<lparr>alternatives = [\<lparr>alt_transcript = ''Hi'', words = []\<rparr>]\<rparr>].
      \<exists>a \<in> set (alternatives r). words a = []) \<and>
   extract_transcript [\<lparr>alternatives = [\<lparr>alt_transcript = ''Hi'', words = []\<rparr>]\<rparr>] 1 =
     Inl IndexError"
  using extract_transcript_fails_iff_alternative_without_words
    [of "[\<lparr>alternatives = [\<lparr>alt_transcript = ''Hi'', words = []\<rparr>]\<rparr>]" 1 IndexError]
  by simp

section \<open>The claims about the fusion\<close>

text \<open>
  Claim C4: for every pair of normalized sequences of the two channels, the times of the
  utterances that the fusion produces are in non-decreasing order.
\<close>

theorem combine_and_format_times_sorted:
  "sorted (map time (combine_and_format left_entries right_entries))"
  by (simp add: combine_and_format_map time_format_result)

text \<open>
  Claim C5: among the utterances with one and the same time, those of the left channel
  come first, in their order, and those of the right channel follow, in theirs. So of
  two entries with equal start time, one of each channel, the one of the left channel
  is placed first. The fusion is a function of its two arguments: equal inputs give
  equal outputs.
\<close>

theorem combine_and_format_ties_left_first:
  "filter (\<lambda>u. time u = k) (combine_and_format left_entries right_entries) =
     map format_result (filter (\<lambda>e. start_time e = k) left_entries) @
     map format_result (filter (\<lambda>e. start_time e = k) right_entries)"
proof -
  have "filter (\<lambda>u. time u = k) (combine_and_format left_entries right_entries) =
      map format_result
        (filter (\<lambda>e. start_time e = k) (sort_key start_time (left_entries @ right_entries)))"
    by (simp add: combine_and_format_map filter_map comp_def format_result_def)
  then show ?thesis
    by (simp add: sort_key_stable)
qed

text \<open>
  Claim C10: the merged list has as many utterances as the two inputs have entries, and
  is a permutation of the entries formatted one by one: the speaker is the label of the
  entry, the time is its start time, the spoken words are its text without leading and
  trailing whitespace. Nothing is dropped and nothing is duplicated.
\<close>

theorem combine_and_format_permutation:
  "length (combine_and_format left_entries right_entries) =
     length left_entries + length right_entries \<and>
   mset (combine_and_format left_entries right_entries) =
     mset (map (\<lambda>e. \<lparr>time = start_time e, speaker = entry_speaker e,
                        spoken_words = strip (entry_transcript e)\<rparr>)
            (left_entries @ right_entries))"
proof
  show "length (combine_and_format left_entries right_entries) =
      length left_entries + length right_entries"
    by (simp add: combine_and_format_map)
  have "mset (combine_and_format left_entries right_entries) =
      image_mset format_result (mset (sort_key start_time (left_entries @ right_entries)))"
    by (simp add: combine_and_format_map)
  also have "\<dots> = image_mset format_result (mset (left_entries @ right_entries))"
    by (simp only: mset_sort)
  finally show "mset (combine_and_format left_entries right_entries) =
     mset (map (\<lambda>e. \<lparr>time = start_time e, speaker = entry_speaker e,
                        spoken_words = strip (entry_transcript e)\<rparr>)
            (left_entries @ right_entries))"
    by (simp add: format_result_def [abs_def])
qed

text \<open>
  Claim C6, as the specification states it: in every transcript of a run, the time of
  every utterance is at most the call duration. The duration is passed on as it comes
  and is compared with nothing; a first word that starts after it gives an utterance
  after the end of the call.
\<close>

theorem build_transcript_time_after_duration_counterexample:
  "build_transcript
     [\<lparr>alternatives = [\<lparr>alt_transcript = ''Goodbye'',
         words = [\<lparr>word_start_time = 6000, word_end_time = 6400, word_text = ''Goodbye''\<rparr>]\<rparr>]\<rparr>]
     []
     5000 =
   Inr \<lparr>utterances = [\<lparr>time = 6000, speaker = 0, spoken_words = ''Goodbye''\<rparr>],
        call_duration = 5000\<rparr> \<and>
   \<not> times_within_duration
       \<lparr>utterances = [\<lparr>time = 6000, speaker = 0, spoken_words = ''Goodbye''\<rparr>],
        call_duration = 5000\<rparr>"
  by (simp add: build_transcript_def combine_and_format_results_def extract_transcript_def
      alternative_entry_def combine_and_format_def format_result_def strip_def isspace_def
      times_within_duration_def)

text \<open>
  Claim C6, amended: the call duration of the transcript of a run is the duration
  supplied, and the time of every utterance is at most the call duration exactly when
  the first word of every recognized alternative starts at or before the duration
  supplied. The code does not check it.
\<close>

theorem build_transcript_times_within_duration_iff:
  assumes "build_transcript left_results right_results duration = Inr t"
  shows "call_duration t = duration \<and>
    (times_within_duration t \<longleftrightarrow>
      (\<forall>r \<in> set (left_results @ right_results). \<forall>a \<in> set (alternatives r).
          word_start_time (hd (words a)) \<le> duration))"
proof -
  from assms obtain l r where l: "extract_transcript left_results 0 = Inr l"
      and r: "extract_transcript right_results 1 = Inr r"
      and t: "t = \<lparr>utterances = combine_and_format l r, call_duration = duration\<rparr>"
    unfolding build_transcript_Inr by blast
  have "times_within_duration t \<longleftrightarrow> (\<forall>e \<in> set (l @ r). start_time e \<le> duration)"
    by (simp add: t times_within_duration_def list_all_iff combine_and_format_map
        format_result_def ball_Un)
  also have "\<dots> \<longleftrightarrow> (\<forall>r \<in> set (left_results @ right_results). \<forall>a \<in> set (alternatives r).
          word_start_time (hd (words a)) \<le> duration)"
    using extract_transcript_start_times [OF l, of duration]
      extract_transcript_start_times [OF r, of duration]
    by (simp add: ball_Un)
  finally show ?thesis by (simp add: t)
qed

text \<open>
  Claim C6, amended: the theorem at the scenario of the specification (left channel
  ``Hello'' at 1000, right channel ``Hi'' at 500, duration 5000).
\<close>

theorem build_transcript_times_within_duration_iff_witness:
  "build_transcript
     [\<lparr>alternatives = [\<lparr>alt_transcript = ''Hello '',
         words = [\<lparr>word_start_time = 1000, word_end_time = 1400, word_text = ''Hello''\<rparr>]\<rparr>]\<rparr>]
     [\<lparr>alternatives = [\<lparr>alt_transcript = ''Hi'',
         words = [\<lparr>word_start_time = 500, word_end_time = 700, word_text = ''Hi''\<rparr>]\<rparr>]\<rparr>]
     5000 =
   Inr \<lparr>utterances = [\<lparr>time = 500, speaker = 1, spoken_words = ''Hi''\<rparr>,
                      \<lparr>time = 1000, speaker = 0, spoken_words = ''Hello''\<rparr>],
        call_duration = 5000\<rparr> \<and>
   call_duration
     \<lparr>utterances = [\<lparr>time = 500, speaker = 1, spoken_words = ''Hi''\<rparr>,
                    \<lparr>time = 1000, speaker = 0, spoken_words = ''Hello''\<rparr>],
      call_duration = 5000\<rparr> = 5000 \<and>
   times_within_duration
     \<lparr>utterances = [\<lparr>time = 500, speaker = 1, spoken_words = ''Hi''\<rparr>,
                    \<lparr>time = 1000, speaker = 0, spoken_words = ''Hello''\<rparr>],
      call_duration = 5000\<rparr>"
proof -
  have run: "build_transcript
     [\<lparr>alternatives = [\<lparr>alt_transcript = ''Hello '',
         words = [\<lparr>word_start_time = 1000, word_end_time = 1400, word_text = ''Hello''\<rparr>]\<rparr>]\<rparr>]
     [\<lparr>alternatives = [\<lparr>alt_transcript = ''Hi'',
         words = [\<lparr>word_start_time = 500, word_end_time = 700, word_text = ''Hi''\<rparr>]\<rparr>]\<rparr>]
     5000 =
   Inr \<lparr>utterances = [\<lparr>time = 500, speaker = 1, spoken_words = ''Hi''\<rparr>,
                      \<lparr>time = 1000, speaker = 0, spoken_words = ''Hello''\<rparr>],
        call_duration = 5000\<rparr>"
    by (simp add: build_transcript_def combine_and_format_results_def extract_transcript_def
      alternative_entry_def combine_and_format_def format_result_def strip_def isspace_def)
  show ?thesis
    using run build_transcript_times_within_duration_iff [OF run]
    by simp
qed

section \<open>Properties of the schemas\<close>

subsection \<open>Validation of what \<^verbatim>\<open>model_dump_json\<close> writes\<close>

lemma and_then_Inr: "and_then m f = Inr y \<longleftrightarrow> (\<exists>x. m = Inr x \<and> f x = Inr y)"
  by (cases m) simp_all

lemma required_Inr:
  "required ms k validate = Inr x \<longleftrightarrow> (\<exists>v. get_key ms k = Some v \<and> validate v = Inr x)"
  by (simp add: required_def split: option.splits)

lemma validate_optional_str_dump: "validate_optional_str (dump_optional_str s) = Inr s"
  by (cases s) simp_all

lemma validate_dump_Utterance: "validate_Utterance (dump_Utterance u) = Inr u"
  by (simp add: dump_Utterance_def required_def get_key_def)

lemma validate_items_dump:
  "(\<And>x. validate (dump x) = Inr x) \<Longrightarrow> validate_items validate (map dump xs) = Inr xs"
  by (induction xs) simp_all

lemma validate_dump_Transcript: "validate_Transcript (dump_Transcript t) = Inr t"
  by (simp add: dump_Transcript_def required_def get_key_def validate_items_dump
      validate_dump_Utterance)

lemma validate_dump_Entities: "validate_Entities (dump_Entities e) = Inr e"
  by (simp add: dump_Entities_def required_def get_key_def validate_optional_str_dump)

lemma validate_dump_ScoreMetric: "validate_ScoreMetric (dump_ScoreMetric m) = Inr m"
  by (simp add: dump_ScoreMetric_def required_def get_key_def)

lemma validate_dump_BoolMetric: "validate_BoolMetric (dump_BoolMetric m) = Inr m"
  by (simp add: dump_BoolMetric_def required_def get_key_def)

lemma validate_dump_StringMetric: "validate_StringMetric (dump_StringMetric m) = Inr m"
  by (simp add: dump_StringMetric_def required_def get_key_def)

lemma validate_dump_Evaluation: "validate_Evaluation (dump_Evaluation e) = Inr e"
  by (simp add: dump_Evaluation_def required_def get_key_def validate_dump_ScoreMetric
      validate_dump_BoolMetric validate_dump_StringMetric)

subsection \<open>Validation raises nothing but \<^verbatim>\<open>ValidationError\<close>\<close>

lemma outcome_and_then:
  "validation_outcome m \<Longrightarrow> (\<And>x. validation_outcome (f x)) \<Longrightarrow> validation_outcome (and_then m f)"
  by (cases m) simp_all

lemma outcome_required:
  "(\<And>v. validation_outcome (validate v)) \<Longrightarrow> validation_outcome (required ms k validate)"
  by (simp add: required_def split: option.splits)

lemma outcome_int: "validation_outcome (validate_int j)"
  by (cases j) simp_all

lemma outcome_str: "validation_outcome (validate_str j)"
  by (cases j) simp_all

lemma outcome_Inr: "validation_outcome (Inr x)"
  by simp

lemma outcome_ScoreMetric: "validation_outcome (validate_ScoreMetric j)"
  by (cases j) (simp_all, intro outcome_and_then outcome_required outcome_int outcome_str outcome_Inr)

lemma outcome_BoolMetric: "validation_outcome (validate_BoolMetric j)"
  by (cases j) (simp_all, intro outcome_and_then outcome_required outcome_int outcome_str outcome_Inr)

lemma outcome_StringMetric: "validation_outcome (validate_StringMetric j)"
  by (cases j) (simp_all, intro outcome_and_then outcome_required outcome_int outcome_str outcome_Inr)

lemma outcome_Evaluation: "validation_outcome (validate_Evaluation j)"
  by (cases j) (simp_all, intro outcome_and_then outcome_required outcome_ScoreMetric
      outcome_BoolMetric outcome_StringMetric outcome_Inr)

lemma get_key_None: "get_key ms k = None \<longleftrightarrow> k \<notin> fst ` set ms"
  by (simp add: get_key_def map_of_eq_None_iff)

lemma validate_Evaluation_keys:
  assumes "validate_Evaluation (JObject ms) = Inr e"
  shows "\<forall>k \<in> set Evaluation_fields. get_key ms k \<noteq> None"
  using assms by (auto simp: and_then_Inr required_Inr Evaluation_fields_def)

section \<open>The claims about the schemas\<close>

text \<open>
  Claim C1, as the specification states it: an \<^verbatim>\<open>Evaluation\<close> response whose
  \<^verbatim>\<open>customer_sentiment.value\<close> is outside 1 to 10 (for example 11) is rejected by
  the validation, and so is a \<^verbatim>\<open>BoolMetric\<close> value outside 0 and 1. Both fields
  are declared \<^verbatim>\<open>value: int\<close> with a description and no bound: the response with
  \<^verbatim>\<open>customer_sentiment.value = 11\<close> is accepted, and so is a \<^verbatim>\<open>BoolMetric\<close> of
  value 2.
\<close>

theorem validate_Evaluation_out_of_range_counterexample:
  "validate_Evaluation (JObject
     [(''greeting'', JObject [(''value'', JInt 1), (''justification'', JString ''Greets by name'')]),
       (''hold'', JObject [(''value'', JInt 0), (''justification'', JString ''No hold'')]),
       (''ticket'', JObject [(''value'', JInt 1), (''justification'', JString ''Ticket opened'')]),
       (''listening'', JObject [(''value'', JInt 1), (''justification'', JString ''Repeats the issue'')]),
       (''understanding'', JObject [(''value'', JInt 1), (''justification'', JString ''Restates the need'')]),
       (''tone'', JObject [(''value'', JInt 1), (''justification'', JString ''Polite'')]),
       (''proactivity'', JObject [(''value'', JInt 0), (''justification'', JString ''No follow up offered'')]),
       (''clarity'', JObject [(''value'', JInt 1), (''justification'', JString ''Plain wording'')]),
       (''resolved'', JObject [(''value'', JInt 1), (''justification'', JString ''Issue closed'')]),
       (''customer_sentiment'', JObject [(''value'', JInt 11), (''justification'', JString ''Very happy'')]),
       (''escalation'', JObject [(''value'', JInt 0), (''justification'', JString ''Not escalated'')]),
       (''agent_feedback'', JObject [(''value'', JString ''Confirm the ticket number''), (''justification'', JString ''Good call'')]),
       (''escalation_reason'', JObject [(''value'', JString ''None''), (''justification'', JString ''No escalation'')])]) =
   Inr \<lparr>greeting = \<lparr>bool_value = 1, bool_justification = ''Greets by name''\<rparr>,
        hold = \<lparr>bool_value = 0, bool_justification = ''No hold''\<rparr>,
        ticket = \<lparr>bool_value = 1, bool_justification = ''Ticket opened''\<rparr>,
        listening = \<lparr>bool_value = 1, bool_justification = ''Repeats the issue''\<rparr>,
        understanding = \<lparr>bool_value = 1, bool_justification = ''Restates the need''\<rparr>,
        tone = \<lparr>bool_value = 1, bool_justification = ''Polite''\<rparr>,
        proactivity = \<lparr>bool_value = 0, bool_justification = ''No follow up offered''\<rparr>,
        clarity = \<lparr>bool_value = 1, bool_justification = ''Plain wording''\<rparr>,
        resolved = \<lparr>bool_value = 1, bool_justification = ''Issue closed''\<rparr>,
        customer_sentiment = \<lparr>score_value = 11, score_justification = ''Very happy''\<rparr>,
        escalation = \<lparr>bool_value = 0, bool_justification = ''Not escalated''\<rparr>,
        agent_feedback = \<lparr>string_value = ''Confirm the ticket number'', string_justification = ''Good call''\<rparr>,
        escalation_reason = \<lparr>string_value = ''None'', string_justification = ''No escalation''\<rparr>\<rparr> \<and>
   validate_BoolMetric
     (JObject [(''value'', JInt 2), (''justification'', JString ''Twice'')]) =
   Inr \<lparr>bool_value = 2, bool_justification = ''Twice''\<rparr>"
  by (simp add: required_def get_key_def)

text \<open>
  Claim C1, amended: the validation of a \<^verbatim>\<open>ScoreMetric\<close> and of a \<^verbatim>\<open>BoolMetric\<close>
  accepts every response whose \<^verbatim>\<open>value\<close> is an integer and whose
  \<^verbatim>\<open>justification\<close> is a string, whatever the integer is, and keeps the integer:
  the ranges 1 to 10 and 0 to 1 are descriptions given to the language model and are not
  enforced. So every \<^verbatim>\<open>Evaluation\<close>, whatever its integers, is accepted from its own
  JSON form; a response with \<^verbatim>\<open>customer_sentiment.value = 11\<close> parses.
\<close>

theorem validate_metric_accepts_any_integer:
  "(get_key ms ''value'' = Some (JInt v) \<and>
    get_key ms ''justification'' = Some (JString j) \<longrightarrow>
      validate_ScoreMetric (JObject ms) = Inr \<lparr>score_value = v, score_justification = j\<rparr> \<and>
      validate_BoolMetric (JObject ms) = Inr \<lparr>bool_value = v, bool_justification = j\<rparr>)
   \<and> validate_Evaluation (dump_Evaluation e) = Inr e"
  by (simp add: required_def validate_dump_Evaluation)

text \<open>Claim C1, amended: the theorem at a score of 11.\<close>

theorem validate_metric_accepts_any_integer_witness:
  "get_key [(''value'', JInt 11), (''justification'', JString ''Very happy'')] ''value'' =
     Some (JInt 11) \<and>
   get_key [(''value'', JInt 11), (''justification'', JString ''Very happy'')]
     ''justification'' = Some (JString ''Very happy'') \<and>
   validate_ScoreMetric
     (JObject [(''value'', JInt 11), (''justification'', JString ''Very happy'')]) =
   Inr \<lparr>score_value = 11, score_justification = ''Very happy''\<rparr>"
  using validate_metric_accepts_any_integer
    [of "[(''value'', JInt 11), (''justification'', JString ''Very happy'')]" 11
        "''Very happy''"]
  by (simp add: get_key_def)

text \<open>
  Claim C7, as the specification states it: in every accepted \<^verbatim>\<open>Entities\<close> value the
  agent's speaker differs from the customer's, both are 0 or 1, and a payload with equal
  speakers is rejected. The two fields are declared \<^verbatim>\<open>int\<close> and nothing relates
  them: a payload with both speakers 0 is accepted, and so is one with speakers 2
  and 7.
\<close>

theorem validate_Entities_equal_speakers_counterexample:
  "validate_Entities (JObject
      [(''agent_name'', JString ''Dana''), (''customer_name'', JNull),
       (''agent_speaker'', JInt 0), (''customer_speaker'', JInt 0),
       (''reason'', JString ''Billing''), (''topic'', JString ''Invoice''),
       (''subtopic'', JString ''Refund'')]) =
   Inr \<lparr>agent_name = Some ''Dana'', customer_name = None, agent_speaker = 0,
        customer_speaker = 0, reason = Some ''Billing'', topic = ''Invoice'',
        subtopic = ''Refund''\<rparr> \<and>
   validate_Entities (JObject
      [(''agent_name'', JString ''Dana''), (''customer_name'', JNull),
       (''agent_speaker'', JInt 2), (''customer_speaker'', JInt 7),
       (''reason'', JString ''Billing''), (''topic'', JString ''Invoice''),
       (''subtopic'', JString ''Refund'')]) =
   Inr \<lparr>agent_name = Some ''Dana'', customer_name = None, agent_speaker = 2,
        customer_speaker = 7, reason = Some ''Billing'', topic = ''Invoice'',
        subtopic = ''Refund''\<rparr>"
  by (simp add: required_def get_key_def)

text \<open>
  Claim C7, amended: an \<^verbatim>\<open>Entities\<close> payload is accepted whenever it has the seven
  fields, with \<^verbatim>\<open>agent_name\<close>, \<^verbatim>\<open>customer_name\<close> and \<^verbatim>\<open>reason\<close> each a string
  or null, \<^verbatim>\<open>agent_speaker\<close> and \<^verbatim>\<open>customer_speaker\<close> integers, and \<^verbatim>\<open>topic\<close>
  and \<^verbatim>\<open>subtopic\<close> strings, and the accepted value holds these seven. The two
  speakers are any two integers: they may be equal and may lie outside 0 and 1.
\<close>

theorem validate_Entities_accepts_any_speakers:
  "get_key ms ''agent_name'' = Some (dump_optional_str an) \<and>
   get_key ms ''customer_name'' = Some (dump_optional_str cn) \<and>
   get_key ms ''agent_speaker'' = Some (JInt a) \<and>
   get_key ms ''customer_speaker'' = Some (JInt c) \<and>
   get_key ms ''reason'' = Some (dump_optional_str rs) \<and>
   get_key ms ''topic'' = Some (JString tp) \<and>
   get_key ms ''subtopic'' = Some (JString st) \<longrightarrow>
   validate_Entities (JObject ms) =
     Inr \<lparr>agent_name = an, customer_name = cn, agent_speaker = a, customer_speaker = c,
          reason = rs, topic = tp, subtopic = st\<rparr>"
  by (simp add: required_def validate_optional_str_dump)

text \<open>Claim C7, amended: the theorem at a payload with the speakers 0 and 1.\<close>

theorem validate_Entities_accepts_any_speakers_witness:
  "get_key
      [(''agent_name'', JString ''Dana''), (''customer_name'', JNull),
       (''agent_speaker'', JInt 0), (''customer_speaker'', JInt 1),
       (''reason'', JString ''Billing''), (''topic'', JString ''Invoice''),
       (''subtopic'', JString ''Refund'')]
      ''agent_speaker'' = Some (JInt 0) \<and>
   get_key
      [(''agent_name'', JString ''Dana''), (''customer_name'', JNull),
       (''agent_speaker'', JInt 0), (''customer_speaker'', JInt 1),
       (''reason'', JString ''Billing''), (''topic'', JString ''Invoice''),
       (''subtopic'', JString ''Refund'')]
      ''customer_speaker'' = Some (JInt 1) \<and>
   validate_Entities (JObject
      [(''agent_name'', JString ''Dana''), (''customer_name'', JNull),
       (''agent_speaker'', JInt 0), (''customer_speaker'', JInt 1),
       (''reason'', JString ''Billing''), (''topic'', JString ''Invoice''),
       (''subtopic'', JString ''Refund'')]) =
   Inr \<lparr>agent_name = Some ''Dana'', customer_name = None, agent_speaker = 0,
        customer_speaker = 1, reason = Some ''Billing'', topic = ''Invoice'',
        subtopic = ''Refund''\<rparr>"
  using validate_Entities_accepts_any_speakers
    [of "[(''agent_name'', JString ''Dana''), (''customer_name'', JNull),
         (''agent_speaker'', JInt 0), (''customer_speaker'', JInt 1),
         (''reason'', JString ''Billing''), (''topic'', JString ''Invoice''),
         (''subtopic'', JString ''Refund'')]"
        "Some ''Dana''" None 0 1 "Some ''Billing''" "''Invoice''" "''Refund''"]
  by (simp add: get_key_def)

text \<open>
  Claim C8: a response to the evaluation call that lacks any one of the thirteen fields
  of \<^verbatim>\<open>Evaluation\<close> does not parse: the validation fails with a validation error.
  No \<^verbatim>\<open>Evaluation\<close> comes out of it, so no missing field is filled with a default.
\<close>

theorem validate_Evaluation_missing_field:
  assumes "k \<in> set Evaluation_fields" and "k \<notin> fst ` set ms"
  shows "validate_Evaluation (JObject ms) = Inl ValidationError"
proof (cases "validate_Evaluation (JObject ms)")
  case (Inl e)
  with outcome_Evaluation [of "JObject ms"] show ?thesis by simp
next
  case (Inr e)
  with assms(1) have "get_key ms k \<noteq> None"
    using validate_Evaluation_keys by blast
  with assms(2) show ?thesis by (simp add: get_key_None)
qed

text \<open>
  Claim C8: the theorem at a response that has every field but
  \<^verbatim>\<open>escalation_reason\<close>.
\<close>

theorem validate_Evaluation_missing_field_witness:
  "''escalation_reason'' \<in> set Evaluation_fields \<and>
   ''escalation_reason'' \<notin> fst ` set
     [(''greeting'', JObject [(''value'', JInt 1), (''justification'', JString ''Greets by name'')]),
       (''hold'', JObject [(''value'', JInt 0), (''justification'', JString ''No hold'')]),
       (''ticket'', JObject [(''value'', JInt 1), (''justification'', JString ''Ticket opened'')]),
       (''listening'', JObject [(''value'', JInt 1), (''justification'', JString ''Repeats the issue'')]),
       (''understanding'', JObject [(''value'', JInt 1), (''justification'', JString ''Restates the need'')]),
       (''tone'', JObject [(''value'', JInt 1), (''justification'', JString ''Polite'')]),
       (''proactivity'', JObject [(''value'', JInt 0), (''justification'', JString ''No follow up offered'')]),
       (''clarity'', JObject [(''value'', JInt 1), (''justification'', JString ''Plain wording'')]),
       (''resolved'', JObject [(''value'', JInt 1), (''justification'', JString ''Issue closed'')]),
       (''customer_sentiment'', JObject [(''value'', JInt 11), (''justification'', JString ''Very happy'')]),
       (''escalation'', JObject [(''value'', JInt 0), (''justification'', JString ''Not escalated'')]),
       (''agent_feedback'', JObject [(''value'', JString ''Confirm the ticket number''), (''justification'', JString ''Good call'')])] \<and>
   validate_Evaluation (JObject
     [(''greeting'', JObject [(''value'', JInt 1), (''justification'', JString ''Greets by name'')]),
       (''hold'', JObject [(''value'', JInt 0), (''justification'', JString ''No hold'')]),
       (''ticket'', JObject [(''value'', JInt 1), (''justification'', JString ''Ticket opened'')]),
       (''listening'', JObject [(''value'', JInt 1), (''justification'', JString ''Repeats the issue'')]),
       (''understanding'', JObject [(''value'', JInt 1), (''justification'', JString ''Restates the need'')]),
       (''tone'', JObject [(''value'', JInt 1), (''justification'', JString ''Polite'')]),
       (''proactivity'', JObject [(''value'', JInt 0), (''justification'', JString ''No follow up offered'')]),
       (''clarity'', JObject [(''value'', JInt 1), (''justification'', JString ''Plain wording'')]),
       (''resolved'', JObject [(''value'', JInt 1), (''justification'', JString ''Issue closed'')]),
       (''customer_sentiment'', JObject [(''value'', JInt 11), (''justification'', JString ''Very happy'')]),
       (''escalation'', JObject [(''value'', JInt 0), (''justification'', JString ''Not escalated'')]),
       (''agent_feedback'', JObject [(''value'', JString ''Confirm the ticket number''), (''justification'', JString ''Good call'')])]) =
   Inl ValidationError"
proof -
  have field: "''escalation_reason'' \<in> set Evaluation_fields"
    by (simp add: Evaluation_fields_def)
  have missing: "''escalation_reason'' \<notin> fst ` set
     [(''greeting'', JObject [(''value'', JInt 1), (''justification'', JString ''Greets by name'')]),
       (''hold'', JObject [(''value'', JInt 0), (''justification'', JString ''No hold'')]),
       (''ticket'', JObject [(''value'', JInt 1), (''justification'', JString ''Ticket opened'')]),
       (''listening'', JObject [(''value'', JInt 1), (''justification'', JString ''Repeats the issue'')]),
       (''understanding'', JObject [(''value'', JInt 1), (''justification'', JString ''Restates the need'')]),
       (''tone'', JObject [(''value'', JInt 1), (''justification'', JString ''Polite'')]),
       (''proactivity'', JObject [(''value'', JInt 0), (''justification'', JString ''No follow up offered'')]),
       (''clarity'', JObject [(''value'', JInt 1), (''justification'', JString ''Plain wording'')]),
       (''resolved'', JObject [(''value'', JInt 1), (''justification'', JString ''Issue closed'')]),
       (''customer_sentiment'', JObject [(''value'', JInt 11), (''justification'', JString ''Very happy'')]),
       (''escalation'', JObject [(''value'', JInt 0), (''justification'', JString ''Not escalated'')]),
       (''agent_feedback'', JObject [(''value'', JString ''Confirm the ticket number''), (''justification'', JString ''Good call'')])]"
    by simp
  show ?thesis
    using field missing validate_Evaluation_missing_field [OF field missing]
    by (intro conjI)
qed

text \<open>
  Claim C9: writing a \<^verbatim>\<open>Result\<close> as JSON and validating the JSON as a \<^verbatim>\<open>Result\<close>
  gives the \<^verbatim>\<open>Result\<close> back: every field is there again, an integer is an integer
  again, an absent optional string is absent again.
\<close>

theorem validate_dump_Result:
  "validate_Result (dump_Result r) = Inr r"
  by (simp add: dump_Result_def required_def get_key_def validate_dump_Transcript
      validate_dump_Entities validate_dump_Evaluation)

end
